theory Spec2Isabelle
  imports Complex_Main
begin

section \<open>Edge learning: configuration and the weight update\<close>

text \<open>
  The job's configuration, read once from the environment by the constructor of
  \<^verbatim>\<open>EdgeLearningJob\<close>. Python floats are modelled as real numbers and Python's
  unbounded integers as \<^typ>\<open>int\<close>.
\<close>

record config =
  eta :: real
  r :: real
  d :: real
  w_max :: real
  window_hours :: int
  max_edges_per_tag :: int

text \<open>\<^verbatim>\<open>_clip_weight\<close>: \<^verbatim>\<open>max(0.0, min(weight, self.w_max))\<close>.\<close>

definition clip_weight :: "config \<Rightarrow> real \<Rightarrow> real" where
  "clip_weight cfg weight = max 0 (min weight (w_max cfg))"

text \<open>\<^verbatim>\<open>_update_edge_weight\<close>, with the source's local names.\<close>

definition update_edge_weight :: "config \<Rightarrow> real \<Rightarrow> bool \<Rightarrow> real" where
  "update_edge_weight cfg current_weight accepted =
     (let reward = (if accepted then r cfg else - d cfg);
          new_weight = current_weight + reward;
          clipped_weight = clip_weight cfg new_weight;
          updated_weight = (1 - eta cfg) * current_weight + eta cfg * clipped_weight
      in clip_weight cfg updated_weight)"

text \<open>The configuration of the specification's worked example.\<close>

definition example_config :: config where
  "example_config =
     \<lparr>eta = 1 / 10, r = 5 / 100, d = 2 / 100, w_max = 1,
      window_hours = 24, max_edges_per_tag = 32\<rparr>"

text \<open>The configuration of the pruning example: at most three edges for a tag.\<close>

definition pruning_config :: config where
  "pruning_config = example_config\<lparr>max_edges_per_tag := 3\<rparr>"


section \<open>Edge learning: pairs, documents and the pass\<close>

text \<open>The exceptions that the modelled code can raise.\<close>

datatype error = OverflowError | TypeError | ValueError | ZeroDivisionError | AttributeError

text \<open>
  A field of a stored document that the code reads with \<^verbatim>\<open>get\<close>: the key may be
  missing, or present with the value \<^verbatim>\<open>None\<close>.
\<close>

datatype 'a field = Absent | Null | Value 'a

text \<open>
  \<^verbatim>\<open>_build_tag_pairs\<close>: the two nested index loops, \<open>i\<close> over the positions of the
  list and \<open>j\<close> over the positions after \<open>i\<close>.
\<close>

definition build_tag_pairs :: "'a list \<Rightarrow> ('a \<times> 'a) list" where
  "build_tag_pairs tgs =
     concat (map (\<lambda>i. map (\<lambda>j. (tgs ! i, tgs ! j)) [i + 1 ..< length tgs])
                 [0 ..< length tgs])"

text \<open>
  A Python dictionary keeps its keys in insertion order: assigning to a key that is
  present replaces the value in place, assigning to a new key appends it.
\<close>

fun dict_set :: "('k \<times> 'v) list \<Rightarrow> 'k \<Rightarrow> 'v \<Rightarrow> ('k \<times> 'v) list" where
  "dict_set [] k v = [(k, v)]"
| "dict_set ((k', v') # kvs) k v =
     (if k' = k then (k, v) # kvs else (k', v') # dict_set kvs k v)"

definition dict_get :: "('k \<times> 'v) list \<Rightarrow> 'k \<Rightarrow> 'v \<Rightarrow> 'v" where
  "dict_get kvs k dflt = (case map_of kvs k of None \<Rightarrow> dflt | Some v \<Rightarrow> v)"

text \<open>Python's \<^verbatim>\<open>xs[:m]\<close>: a negative bound counts from the end of the list.\<close>

definition slice_upto :: "int \<Rightarrow> 'a list \<Rightarrow> 'a list" where
  "slice_upto m xs =
     (if 0 \<le> m then take (nat m) xs else take (length xs - nat (- m)) xs)"

text \<open>Python's \<^verbatim>\<open>int(x)\<close> on a finite float truncates towards zero.\<close>

definition py_int :: "real \<Rightarrow> int" where
  "py_int x = (if 0 \<le> x then \<lfloor>x\<rfloor> else \<lceil>x\<rceil>)"

text \<open>One entry of the \<^verbatim>\<open>edges\<close> array of a tag-edge document.\<close>

record edge =
  e_to :: string
  e_w :: real
  e_facetSrc :: string
  e_facetDst :: string
  e_ts :: int

text \<open>
  The \<^verbatim>\<open>tag_edges\<close> collection: at most one document for an organisation and a
  tag, given by its \<^verbatim>\<open>edges\<close> array.
\<close>

type_synonym tag_edges = "string \<times> string \<Rightarrow> edge list option"

text \<open>
  A document of the \<^verbatim>\<open>pack_events\<close> collection. The two fields that
  \<^verbatim>\<open>run\<close> reads with a default may be missing or \<^verbatim>\<open>None\<close>.
\<close>

record pack_event =
  orgId :: string
  projectId :: string
  packId :: string
  accepted :: "bool field"
  tags :: "string list field"
  itemIds :: "string list"
  ts :: int

record summary =
  updated :: int
  pruned :: int
  duration_seconds :: real

text \<open>The edges of a stored document, as the tests' \<^verbatim>\<open>get_tag_edges\<close> reads them.\<close>

definition get_tag_edges :: "tag_edges \<Rightarrow> string \<Rightarrow> string \<Rightarrow> edge list" where
  "get_tag_edges coll org_id tag = (case coll (org_id, tag) of None \<Rightarrow> [] | Some es \<Rightarrow> es)"

text \<open>
  The cutoff of the event window,
  \<^verbatim>\<open>int((datetime.now() - timedelta(hours=hours)).timestamp())\<close>. The clock reads
  \<open>now\<close>, in seconds since the epoch, and the local zone is taken to be UTC. A
  \<^verbatim>\<open>timedelta\<close> holds at most 999999999 days in either direction and a
  \<^verbatim>\<open>datetime\<close> lies in the years 1 to 9999; outside either range Python raises
  \<^verbatim>\<open>OverflowError\<close>.
\<close>

definition datetime_min :: real where
  "datetime_min = - 62135596800"

definition datetime_end :: real where
  "datetime_end = 253402300800"

definition window_cutoff :: "real \<Rightarrow> int \<Rightarrow> error + int" where
  "window_cutoff now hours =
     (if hours div 24 < - 999999999 \<or> 999999999 < hours div 24 then Inl OverflowError
      else let t = now - real_of_int (hours * 3600)
           in if t < datetime_min \<or> datetime_end \<le> t then Inl OverflowError
              else Inr (py_int t))"

text \<open>
  \<^verbatim>\<open>_get_recent_pack_events\<close>: the events of the organisation that are not older
  than the cutoff, in the order of the collection.
\<close>

definition get_recent_pack_events ::
  "config \<Rightarrow> real \<Rightarrow> pack_event list \<Rightarrow> string \<Rightarrow> int option \<Rightarrow> error + pack_event list" where
  "get_recent_pack_events cfg now pack_events org_id hours =
     (let hours = (case hours of None \<Rightarrow> window_hours cfg | Some h \<Rightarrow> h)
      in case window_cutoff now hours of
           Inl err \<Rightarrow> Inl err
         | Inr cutoff_time \<Rightarrow>
             Inr (filter (\<lambda>e. orgId e = org_id \<and> ts e \<ge> cutoff_time) pack_events))"

text \<open>\<^verbatim>\<open>_get_current_edges\<close>: the neighbour dictionary of a tag, empty without a document.\<close>

definition get_current_edges :: "tag_edges \<Rightarrow> string \<Rightarrow> string \<Rightarrow> (string \<times> real) list" where
  "get_current_edges coll org_id tag =
     (case coll (org_id, tag) of
        None \<Rightarrow> []
      | Some doc_edges \<Rightarrow> foldl (\<lambda>edges e. dict_set edges (e_to e) (e_w e)) [] doc_edges)"

text \<open>
  \<^verbatim>\<open>_upsert_edges\<close>: Python's \<^verbatim>\<open>sorted\<close> with \<^verbatim>\<open>reverse=True\<close> is a stable sort
  by descending key, which is the stable \<^const>\<open>sort_key\<close> on the negated weight. The
  result is the collection after the write and the number of edges written.
\<close>

definition upsert_edges ::
  "config \<Rightarrow> real \<Rightarrow> tag_edges \<Rightarrow> string \<Rightarrow> string \<Rightarrow> (string \<times> real) list
     \<Rightarrow> tag_edges \<times> int" where
  "upsert_edges cfg now coll org_id tag edges =
     (let sorted_edges = sort_key (\<lambda>x. - snd x) edges;
          top_edges = slice_upto (max_edges_per_tag cfg) sorted_edges;
          current_time = py_int now;
          edge_list = map (\<lambda>(to_tag, weight).
                        \<lparr>e_to = to_tag, e_w = weight, e_facetSrc = [], e_facetDst = [],
                         e_ts = current_time\<rparr>) top_edges
      in (coll((org_id, tag) \<mapsto> edge_list), int (length edge_list)))"

text \<open>
  The body of the loop over the pairs of an event in \<^verbatim>\<open>run\<close>: the edge from the
  first tag to the second, then the edge back, each read, updated, written and counted.
\<close>

definition update_pair ::
  "config \<Rightarrow> real \<Rightarrow> string \<Rightarrow> bool \<Rightarrow> tag_edges \<times> int \<Rightarrow> string \<times> string
     \<Rightarrow> tag_edges \<times> int" where
  "update_pair cfg now org acc st p =
     (case st of (coll, org_edges_updated) \<Rightarrow> case p of (tag1, tag2) \<Rightarrow>
       let current_edges = get_current_edges coll org tag1;
           current_weight = dict_get current_edges tag2 0;
           new_weight = update_edge_weight cfg current_weight acc;
           current_edges = dict_set current_edges tag2 new_weight;
           (coll, edges_count) = upsert_edges cfg now coll org tag1 current_edges;
           org_edges_updated = org_edges_updated + 1;
           current_edges2 = get_current_edges coll org tag2;
           current_weight2 = dict_get current_edges2 tag1 0;
           new_weight2 = update_edge_weight cfg current_weight2 acc;
           current_edges2 = dict_set current_edges2 tag1 new_weight2;
           (coll, edges_count2) = upsert_edges cfg now coll org tag2 current_edges2;
           org_edges_updated = org_edges_updated + 1
       in (coll, org_edges_updated))"

text \<open>
  \<^verbatim>\<open>event.get('tags', [])\<close>, where \<open>None\<close> is Python's \<^verbatim>\<open>None\<close>, and the truth
  value of \<^verbatim>\<open>event.get('accepted', False)\<close>.
\<close>

definition event_tags :: "pack_event \<Rightarrow> string list option" where
  "event_tags event = (case tags event of Absent \<Rightarrow> Some [] | Null \<Rightarrow> None | Value t \<Rightarrow> Some t)"

definition event_accepted :: "pack_event \<Rightarrow> bool" where
  "event_accepted event =
     (case accepted event of Absent \<Rightarrow> False | Null \<Rightarrow> False | Value a \<Rightarrow> a)"

text \<open>
  The body of the loop over the events of an organisation. \<^verbatim>\<open>len(tags)\<close> raises
  \<^verbatim>\<open>TypeError\<close> on \<^verbatim>\<open>None\<close>, before anything is written for the event.
\<close>

definition process_event ::
  "config \<Rightarrow> real \<Rightarrow> string \<Rightarrow> tag_edges \<times> int \<Rightarrow> pack_event \<Rightarrow> error + tag_edges \<times> int" where
  "process_event cfg now org st event =
     (let tgs = event_tags event;
          acc = event_accepted event
      in case tgs of
           None \<Rightarrow> Inl TypeError
         | Some tgs \<Rightarrow>
             if length tgs < 2 then Inr st
             else Inr (foldl (update_pair cfg now org acc) st (build_tag_pairs tgs)))"

text \<open>
  The loop over the events. An exception leaves the loop; the documents written so
  far stay written. The result is the collection and either the exception or the
  organisation's count.
\<close>

fun process_events ::
  "config \<Rightarrow> real \<Rightarrow> string \<Rightarrow> tag_edges \<times> int \<Rightarrow> pack_event list \<Rightarrow> tag_edges \<times> (error + int)" where
  "process_events cfg now org st [] = (fst st, Inr (snd st))"
| "process_events cfg now org st (event # events) =
     (case process_event cfg now org st event of
        Inl err \<Rightarrow> (fst st, Inl err)
      | Inr st' \<Rightarrow> process_events cfg now org st' events)"

text \<open>
  The body of the loop over the organisations, with its \<^verbatim>\<open>try\<close>: an exception is
  logged and the organisation adds nothing to the total.
\<close>

definition process_org ::
  "config \<Rightarrow> real \<Rightarrow> pack_event list \<Rightarrow> int option \<Rightarrow> tag_edges \<times> int \<Rightarrow> string
     \<Rightarrow> tag_edges \<times> int" where
  "process_org cfg now pack_events hours st org =
     (case st of (coll, total_updated) \<Rightarrow>
       case get_recent_pack_events cfg now pack_events org hours of
         Inl err \<Rightarrow> (coll, total_updated)
       | Inr events \<Rightarrow>
           if events = [] then (coll, total_updated)
           else case process_events cfg now org (coll, 0) events of
                  (coll, Inl err) \<Rightarrow> (coll, total_updated)
                | (coll, Inr org_edges_updated) \<Rightarrow> (coll, total_updated + org_edges_updated))"

text \<open>
  The organisations of a pass: the one given, or, when the id is absent or empty,
  every organisation that has an event (\<^verbatim>\<open>distinct('orgId')\<close>).
\<close>

definition select_orgs :: "pack_event list \<Rightarrow> string option \<Rightarrow> string list" where
  "select_orgs pack_events org_id =
     (case org_id of
        None \<Rightarrow> remdups (map orgId pack_events)
      | Some oid \<Rightarrow> if oid \<noteq> [] then [oid] else remdups (map orgId pack_events))"

text \<open>
  \<^verbatim>\<open>run\<close>. The pass starts at \<open>now\<close> and the clock reads \<open>finished\<close> at its end;
  the storage is taken to answer every call. The result is the collection after the
  pass and the summary.
\<close>

definition run ::
  "config \<Rightarrow> real \<Rightarrow> real \<Rightarrow> pack_event list \<Rightarrow> tag_edges \<Rightarrow> string option \<Rightarrow> int option
     \<Rightarrow> tag_edges \<times> summary" where
  "run cfg now finished pack_events coll org_id hours =
     (let orgs = select_orgs pack_events org_id;
          total_pruned = 0;
          (coll, total_updated) = foldl (process_org cfg now pack_events hours) (coll, 0) orgs
      in (coll, \<lparr>updated = total_updated, pruned = total_pruned,
                 duration_seconds = finished - now\<rparr>))"

text \<open>
  What an organisation adds to the total of a pass: nothing when its processing raises,
  and otherwise two for every pair of every event in the window.
\<close>

definition event_count :: "pack_event \<Rightarrow> int" where
  "event_count event =
     (case event_tags event of
        None \<Rightarrow> 0
      | Some tgs \<Rightarrow> 2 * int (length (build_tag_pairs tgs)))"

definition org_count :: "config \<Rightarrow> real \<Rightarrow> pack_event list \<Rightarrow> int option \<Rightarrow> string \<Rightarrow> int" where
  "org_count cfg now pack_events hours org =
     (case get_recent_pack_events cfg now pack_events org hours of
        Inl err \<Rightarrow> 0
      | Inr events \<Rightarrow>
          if None \<in> set (map event_tags events) then 0
          else sum_list (map event_count events))"

text \<open>
  The data of the examples: a pass at an instant in 2023 for the organisation
  \<open>acme\<close>, an accepted event with the tags \<open>python\<close> and \<open>fastapi\<close>, an event whose
  tags are \<^verbatim>\<open>None\<close>, an event that names one tag twice, and a collection in which
  \<open>python\<close> has four neighbours.
\<close>

definition example_now :: real where
  "example_now = 1700000000"

definition accepted_event :: pack_event where
  "accepted_event =
     \<lparr>orgId = ''acme'', projectId = ''p1'', packId = ''pack-1'', accepted = Value True,
      tags = Value [''python'', ''fastapi''], itemIds = [''mem-1''], ts = 1700000000\<rparr>"


definition repeated_tag_event :: pack_event where
  "repeated_tag_event =
     \<lparr>orgId = ''acme'', projectId = ''p1'', packId = ''pack-3'', accepted = Value True,
      tags = Value [''python'', ''python''], itemIds = [''mem-3''], ts = 1700000000\<rparr>"

definition seeded_edge :: "string \<Rightarrow> real \<Rightarrow> edge" where
  "seeded_edge t wt = \<lparr>e_to = t, e_w = wt, e_facetSrc = [], e_facetDst = [], e_ts = 1700000000\<rparr>"

definition four_neighbours :: tag_edges where
  "four_neighbours =
     [(''acme'', ''python'') \<mapsto>
        [seeded_edge ''fastapi'' (8 / 10), seeded_edge ''machine_learning'' (6 / 10),
         seeded_edge ''data_science'' (4 / 10), seeded_edge ''web_development'' (2 / 10)]]"




section \<open>Tiering: the tier of a hotness score\<close>

text \<open>\<^verbatim>\<open>determine_tier\<close>: 1 is the hot tier, 2 the warm tier, 3 the cold tier.\<close>

definition determine_tier :: "real \<Rightarrow> int" where
  "determine_tier hotness_score =
     (if hotness_score \<ge> 5 then 1
      else if hotness_score \<ge> 1 then 2
      else 3)"

section \<open>Tiering: the hotness score and the sweep over the tag records\<close>

text \<open>
  The values that a field of a tag record can hold. A float is a finite number, an
  infinity or NaN. A \<^verbatim>\<open>datetime\<close> is given by its wall-clock reading in
  microseconds, which is what \<^verbatim>\<open>replace(tzinfo=None)\<close> keeps of it; a value of any
  other type is given by its truth value.
\<close>

datatype pyfloat = Finite real | PosInf | NegInf | NaN

datatype pyval =
  PNone | PBool bool | PInt int | PFloat pyfloat | PStr string | PDatetime int | POther bool

text \<open>Python's truth value of a value, as \<^verbatim>\<open>not date_value\<close> reads it.\<close>

fun truthy :: "pyval \<Rightarrow> bool" where
  "truthy PNone = False"
| "truthy (PBool b) = b"
| "truthy (PInt i) = (i \<noteq> 0)"
| "truthy (PFloat f) = (f \<noteq> Finite 0)"
| "truthy (PStr s) = (s \<noteq> [])"
| "truthy (PDatetime t) = True"
| "truthy (POther b) = b"

text \<open>
  \<^verbatim>\<open>safe_parse_datetime\<close>. The parameter \<open>fromisoformat\<close> stands for
  \<^verbatim>\<open>datetime.fromisoformat(s).replace(tzinfo=None)\<close>: the wall-clock reading of the
  string, or \<open>None\<close> where Python raises; the function catches every exception.
\<close>

definition safe_parse_datetime :: "(string \<Rightarrow> int option) \<Rightarrow> pyval \<Rightarrow> int option" where
  "safe_parse_datetime fromisoformat date_value =
     (if \<not> truthy date_value then None
      else case date_value of
             PStr s \<Rightarrow> fromisoformat (filter (\<lambda>c. c \<noteq> CHR ''Z'') s)
           | PDatetime t \<Rightarrow> Some t
           | _ \<Rightarrow> None)"

text \<open>
  \<^verbatim>\<open>safe_get_int\<close>. The parameter \<open>int_of_str\<close> stands for \<^verbatim>\<open>int(s)\<close> on a
  string, \<open>None\<close> where it raises \<^verbatim>\<open>ValueError\<close>. A \<^verbatim>\<open>bool\<close> is an \<^verbatim>\<open>int\<close>
  in Python. On a float \<^verbatim>\<open>int\<close> truncates a finite number, raises
  \<^verbatim>\<open>ValueError\<close> on NaN and \<^verbatim>\<open>OverflowError\<close> on an infinity; the function
  catches \<^verbatim>\<open>ValueError\<close> and \<^verbatim>\<open>TypeError\<close> only.
\<close>

definition safe_get_int :: "(string \<Rightarrow> int option) \<Rightarrow> pyval \<Rightarrow> int \<Rightarrow> error + int" where
  "safe_get_int int_of_str v dflt =
     (case v of
        PBool b \<Rightarrow> Inr (if b then 1 else 0)
      | PInt i \<Rightarrow> Inr i
      | PStr s \<Rightarrow> (case int_of_str s of None \<Rightarrow> Inr dflt | Some i \<Rightarrow> Inr i)
      | PFloat f \<Rightarrow>
          (case f of
             Finite x \<Rightarrow> Inr (py_int x)
           | NaN \<Rightarrow> Inr dflt
           | PosInf \<Rightarrow> Inl OverflowError
           | NegInf \<Rightarrow> Inl OverflowError)
      | _ \<Rightarrow> Inr dflt)"

text \<open>\<^verbatim>\<open>(a - b).days\<close> of two wall-clock readings: whole days, rounded down.\<close>

definition days_between :: "int \<Rightarrow> int \<Rightarrow> int" where
  "days_between a b = (a - b) div 86400000000"

text \<open>Python's \<^verbatim>\<open>round(x, 3)\<close>, which rounds a tie to the even neighbour.\<close>

definition round_half_even :: "real \<Rightarrow> int" where
  "round_half_even y =
     (let f = \<lfloor>y\<rfloor>; fr = y - real_of_int f
      in if fr < 1 / 2 then f
         else if 1 / 2 < fr then f + 1
         else if even f then f else f + 1)"

definition round3 :: "real \<Rightarrow> real" where
  "round3 x = real_of_int (round_half_even (x * 1000)) / 1000"

text \<open>
  The integers from which the conversion to a float, in the product with the recency
  factor, raises \<^verbatim>\<open>OverflowError\<close>.
\<close>

definition float_limit :: int where
  "float_limit = 2 ^ 1024 - 2 ^ 970"

text \<open>
  \<^verbatim>\<open>compute_hotness_score\<close> at the wall-clock reading \<open>now\<close> of
  \<^verbatim>\<open>datetime.utcnow()\<close>. \<^verbatim>\<open>math.log\<close> raises \<^verbatim>\<open>ValueError\<close> outside the
  positive numbers and a division by zero raises \<^verbatim>\<open>ZeroDivisionError\<close>.
\<close>

definition compute_hotness_score ::
  "int \<Rightarrow> int \<Rightarrow> int \<Rightarrow> int \<Rightarrow> int option \<Rightarrow> error + real" where
  "compute_hotness_score now use_count created_at last_used_at last_promoted_at =
     (let age_days = days_between now created_at + 1
      in if age_days + 1 \<le> 0 then Inl ValueError
         else
           let age_penalty = ln (real_of_int (age_days + 1));
               days_since_use = days_between now last_used_at
           in if days_since_use + 1 = 0 then Inl ZeroDivisionError
              else
                let recency_factor = 1 / real_of_int (days_since_use + 1);
                    promotion_boost =
                      (case last_promoted_at of
                         None \<Rightarrow> 1
                       | Some p \<Rightarrow> if days_between now p < 7 then 15 / 10 else 1)
                in if float_limit \<le> \<bar>use_count\<bar> then Inl OverflowError
                   else if age_penalty = 0 then Inl ZeroDivisionError
                   else Inr (round3
                     ((real_of_int use_count * recency_factor * promotion_boost) / age_penalty)))"

text \<open>
  A record of a page of tags. The dictionaries \<^verbatim>\<open>metrics\<close> and \<^verbatim>\<open>meta\<close> are
  read with \<^verbatim>\<open>tag_data.get(key, {})\<close>, so each may be missing or \<^verbatim>\<open>None\<close>.
\<close>

type_synonym pydict = "string \<Rightarrow> pyval option"

record tag_data =
  td_tag :: "string option"
  td_metrics :: "pydict field"
  td_meta :: "pydict field"

text \<open>\<^verbatim>\<open>d.get(key)\<close>, and \<^verbatim>\<open>tag_data.get(key, {})\<close> where \<open>None\<close> is Python's \<^verbatim>\<open>None\<close>.\<close>

definition py_get :: "pydict \<Rightarrow> string \<Rightarrow> pyval" where
  "py_get m k = (case m k of None \<Rightarrow> PNone | Some v \<Rightarrow> v)"

definition get_dict :: "pydict field \<Rightarrow> pydict option" where
  "get_dict f = (case f of Absent \<Rightarrow> Some Map.empty | Null \<Rightarrow> None | Value m \<Rightarrow> Some m)"

text \<open>
  The counters of \<^verbatim>\<open>rebalance_all_tags\<close> and the tier updates that it has sent to
  the storage, in order.
\<close>

record sweep_state =
  total_processed :: int
  total_rebalanced :: int
  tier_updates :: "(string \<times> int) list"

text \<open>
  The body of the \<^verbatim>\<open>try\<close> for one record. The parameter \<open>update_tag_tier\<close> stands
  for the storage's answer to \<^verbatim>\<open>post_tier_update\<close>, which does not raise. Calling
  \<^verbatim>\<open>get\<close> on \<^verbatim>\<open>None\<close> raises \<^verbatim>\<open>AttributeError\<close>.
\<close>

definition tag_record_body ::
  "(string \<Rightarrow> int option) \<Rightarrow> (string \<Rightarrow> int option) \<Rightarrow> (string \<Rightarrow> int \<Rightarrow> bool) \<Rightarrow> int
     \<Rightarrow> sweep_state \<Rightarrow> tag_data \<Rightarrow> error + sweep_state" where
  "tag_record_body int_of_str fromisoformat update_tag_tier now st tag_data =
     (let tag_name = (case td_tag tag_data of None \<Rightarrow> ''unknown'' | Some t \<Rightarrow> t)
      in case get_dict (td_metrics tag_data) of
           None \<Rightarrow> Inl AttributeError
         | Some metrics \<Rightarrow>
             let created_at = safe_parse_datetime fromisoformat (py_get metrics ''createdAt'');
                 last_used_at = safe_parse_datetime fromisoformat (py_get metrics ''lastUsedAt'');
                 last_promoted_at =
                   safe_parse_datetime fromisoformat (py_get metrics ''lastPromotedAt'')
             in case safe_get_int int_of_str (py_get metrics ''useCount'') 1 of
                  Inl err \<Rightarrow> Inl err
                | Inr use_count \<Rightarrow>
                    (case created_at of
                       None \<Rightarrow> Inr st
                     | Some created \<Rightarrow>
                    (case last_used_at of
                       None \<Rightarrow> Inr st
                     | Some last_used \<Rightarrow>
                    (case compute_hotness_score now use_count created last_used
                            last_promoted_at of
                       Inl err \<Rightarrow> Inl err
                     | Inr hotness \<Rightarrow>
                    (let new_tier = determine_tier hotness
                     in case get_dict (td_meta tag_data) of
                          None \<Rightarrow> Inl AttributeError
                        | Some meta \<Rightarrow>
                    (case safe_get_int int_of_str (py_get meta ''tier'') 2 of
                       Inl err \<Rightarrow> Inl err
                     | Inr current_tier \<Rightarrow>
                         let st = (if new_tier \<noteq> current_tier
                                   then let success = update_tag_tier tag_name new_tier;
                                            st = st\<lparr>tier_updates :=
                                                     tier_updates st @ [(tag_name, new_tier)]\<rparr>
                                        in if success
                                           then st\<lparr>total_rebalanced := total_rebalanced st + 1\<rparr>
                                           else st
                                   else st)
                         in Inr (st\<lparr>total_processed := total_processed st + 1\<rparr>)))))))"

text \<open>
  One turn of the loop over the records of a page: the handler of the \<^verbatim>\<open>try\<close> logs
  the exception and the loop goes on with the state as it was.
\<close>

definition process_record ::
  "(string \<Rightarrow> int option) \<Rightarrow> (string \<Rightarrow> int option) \<Rightarrow> (string \<Rightarrow> int \<Rightarrow> bool) \<Rightarrow> int
     \<Rightarrow> sweep_state \<Rightarrow> tag_data \<Rightarrow> sweep_state" where
  "process_record int_of_str fromisoformat update_tag_tier now st tag_data =
     (case tag_record_body int_of_str fromisoformat update_tag_tier now st tag_data of
        Inl err \<Rightarrow> st
      | Inr st' \<Rightarrow> st')"

text \<open>The loop over the records of a page.\<close>

definition rebalance_page ::
  "(string \<Rightarrow> int option) \<Rightarrow> (string \<Rightarrow> int option) \<Rightarrow> (string \<Rightarrow> int \<Rightarrow> bool) \<Rightarrow> int
     \<Rightarrow> sweep_state \<Rightarrow> tag_data list \<Rightarrow> sweep_state" where
  "rebalance_page int_of_str fromisoformat update_tag_tier now st tgs =
     foldl (process_record int_of_str fromisoformat update_tag_tier now) st tgs"



section \<open>Properties of the weight update\<close>

lemma clip_weight_lower: "0 \<le> clip_weight cfg x"
  by (simp add: clip_weight_def)

lemma clip_weight_upper: "0 \<le> w_max cfg \<Longrightarrow> clip_weight cfg x \<le> w_max cfg"
  by (simp add: clip_weight_def)

lemma clip_weight_id: "0 \<le> x \<Longrightarrow> x \<le> w_max cfg \<Longrightarrow> clip_weight cfg x = x"
  by (simp add: clip_weight_def)

text \<open>
  C1. Every edge update is the two-stage formula: the reward is \<open>r\<close> for an accepted
  event and \<open>- d\<close> otherwise, the target is the sum of the current weight and the
  reward clipped to the interval from 0 to wMax, and the new weight is the blend
  \<open>(1 - eta) * current + eta * target\<close> clipped to the same interval. With current
  weight 0.5, eta 0.1, r 0.05, d 0.02 and wMax 1 an accepted event gives 0.505 and a
  rejected one 0.498.
\<close>

theorem update_edge_weight_two_stage:
  "update_edge_weight cfg w acc =
     max 0 (min ((1 - eta cfg) * w
               + eta cfg * max 0 (min (w + (if acc then r cfg else - d cfg)) (w_max cfg)))
            (w_max cfg))
   \<and> update_edge_weight example_config (5 / 10) True = 505 / 1000
   \<and> update_edge_weight example_config (5 / 10) False = 498 / 1000"
  by (simp add: update_edge_weight_def clip_weight_def example_config_def Let_def)

text \<open>
  C3. The updated weight lies in the closed interval from 0 to wMax. The claim takes
  the current weight from that interval, which makes wMax non-negative; nothing else
  about the current weight, the flag, r, d or eta is needed.
\<close>

theorem update_edge_weight_in_range:
  assumes "0 \<le> w_max cfg"
  shows "0 \<le> update_edge_weight cfg w acc
       \<and> update_edge_weight cfg w acc \<le> w_max cfg"
  using assms
  by (simp add: update_edge_weight_def Let_def clip_weight_lower clip_weight_upper)

theorem update_edge_weight_in_range_witness:
  "0 \<le> w_max example_config
   \<and> 0 \<le> update_edge_weight example_config (5 / 10) True
   \<and> update_edge_weight example_config (5 / 10) True \<le> w_max example_config"
proof -
  have h: "0 \<le> w_max example_config" by (simp add: example_config_def)
  show ?thesis using h update_edge_weight_in_range [OF h, of "5 / 10" True] by simp
qed

section \<open>Properties of the pairs of an event\<close>

lemma build_tag_pairs_Nil: "build_tag_pairs [] = []"
  by (simp add: build_tag_pairs_def)

lemma build_tag_pairs_Cons:
  "build_tag_pairs (t # tgs) = map (Pair t) tgs @ build_tag_pairs tgs"
proof -
  have a: "[0 ..< length (t # tgs)] = 0 # map Suc [0 ..< length tgs]"
    by (simp add: upt_conv_Cons map_Suc_upt del: upt_Suc)
  have b: "map (\<lambda>j. ((t # tgs) ! 0, (t # tgs) ! j)) [0 + 1 ..< length (t # tgs)]
           = map (Pair t) tgs"
    by (rule nth_equalityI) (simp_all del: upt_Suc)
  have c: "\<And>i. map (\<lambda>j. ((t # tgs) ! Suc i, (t # tgs) ! j)) [Suc i + 1 ..< length (t # tgs)]
           = map (\<lambda>j. (tgs ! i, tgs ! j)) [i + 1 ..< length tgs]"
    by (rule nth_equalityI) (simp_all del: upt_Suc)
  show ?thesis
    unfolding build_tag_pairs_def a
    using b c by (simp add: comp_def del: upt_Suc)
qed

lemma build_tag_pairs_short: "length tgs < 2 \<Longrightarrow> build_tag_pairs tgs = []"
  by (cases tgs; cases "tl tgs") (auto simp: build_tag_pairs_Cons build_tag_pairs_Nil)

lemma set_build_tag_pairs_subset:
  "(a, b) \<in> set (build_tag_pairs tgs) \<Longrightarrow> a \<in> set tgs \<and> b \<in> set tgs"
  by (induction tgs) (auto simp: build_tag_pairs_Cons build_tag_pairs_Nil)

text \<open>
  On a list of distinct tags the pairs are as the docstring says: no pair has the
  same tag twice, no unordered pair is repeated, and every unordered pair of two tags
  of the list occurs.
\<close>

lemma build_tag_pairs_distinct_components:
  "distinct tgs \<Longrightarrow> (a, b) \<in> set (build_tag_pairs tgs) \<Longrightarrow> a \<noteq> b"
  by (induction tgs)
    (auto simp: build_tag_pairs_Cons build_tag_pairs_Nil dest: set_build_tag_pairs_subset)

lemma build_tag_pairs_no_repeats:
  "distinct tgs \<Longrightarrow> distinct (map (\<lambda>(a, b). {a, b}) (build_tag_pairs tgs))"
proof (induction tgs)
  case Nil
  then show ?case by (simp add: build_tag_pairs_Nil)
next
  case (Cons t tgs)
  have "distinct (map (\<lambda>(a, b). {a, b}) (map (Pair t) tgs))"
    using Cons.prems by (auto simp: distinct_map inj_on_def doubleton_eq_iff)
  moreover have "\<And>p. p \<in> set (build_tag_pairs tgs) \<Longrightarrow> t \<notin> (case p of (a, b) \<Rightarrow> {a, b})"
    using Cons.prems by (auto dest: set_build_tag_pairs_subset)
  ultimately show ?case
    using Cons by (auto simp: build_tag_pairs_Cons)
qed

lemma build_tag_pairs_all:
  "{{a, b} | a b. a \<in> set tgs \<and> b \<in> set tgs \<and> a \<noteq> b}
     \<subseteq> (\<lambda>(a, b). {a, b}) ` set (build_tag_pairs tgs)"
proof (induction tgs)
  case Nil
  then show ?case by simp
next
  case (Cons t tgs)
  show ?case
  proof
    fix s assume "s \<in> {{a, b} | a b. a \<in> set (t # tgs) \<and> b \<in> set (t # tgs) \<and> a \<noteq> b}"
    then obtain a b where s: "s = {a, b}" and a: "a \<in> set (t # tgs)" and b: "b \<in> set (t # tgs)"
      and ab: "a \<noteq> b" by blast
    show "s \<in> (\<lambda>(a, b). {a, b}) ` set (build_tag_pairs (t # tgs))"
    proof (cases "a = t")
      case True
      then have "(t, b) \<in> set (build_tag_pairs (t # tgs))"
        using b ab by (auto simp: build_tag_pairs_Cons)
      then show ?thesis using s True by force
    next
      case False
      show ?thesis
      proof (cases "b = t")
        case True
        then have "(t, a) \<in> set (build_tag_pairs (t # tgs))"
          using a ab by (auto simp: build_tag_pairs_Cons)
        moreover have "s = {t, a}" using s True by auto
        ultimately show ?thesis by force
      next
        case bf: False
        then have "s \<in> (\<lambda>(a, b). {a, b}) ` set (build_tag_pairs tgs)"
          using Cons s a b ab False by auto
        then show ?thesis by (auto simp: build_tag_pairs_Cons)
      qed
    qed
  qed
qed

section \<open>Properties of the stored documents\<close>







lemma upsert_edges_stored:
  "get_tag_edges (fst (upsert_edges cfg now coll org tg edges)) org tg =
     map (\<lambda>(to_tag, weight).
            \<lparr>e_to = to_tag, e_w = weight, e_facetSrc = [], e_facetDst = [], e_ts = py_int now\<rparr>)
       (slice_upto (max_edges_per_tag cfg) (sort_key (\<lambda>x. - snd x) edges))"
  by (simp add: upsert_edges_def get_tag_edges_def Let_def)











lemma get_current_edges_upsert_other:
  "tg' \<noteq> tg \<Longrightarrow>
   get_current_edges (fst (upsert_edges cfg now coll org tg edges)) org tg'
     = get_current_edges coll org tg'"
  by (simp add: get_current_edges_def upsert_edges_def Let_def)


section \<open>Properties of a pass: the count\<close>

lemma update_pair_unfold:
  "update_pair cfg now org acc (coll, n) (a, b) =
     (let e1 = get_current_edges coll org a;
          coll1 = fst (upsert_edges cfg now coll org a
                    (dict_set e1 b (update_edge_weight cfg (dict_get e1 b 0) acc)));
          e2 = get_current_edges coll1 org b;
          coll2 = fst (upsert_edges cfg now coll1 org b
                    (dict_set e2 a (update_edge_weight cfg (dict_get e2 a 0) acc)))
      in (coll2, n + 2))"
  by (simp add: update_pair_def Let_def case_prod_beta)

lemma update_pair_count: "snd (update_pair cfg now org acc st p) = snd st + 2"
  by (cases st; cases p) (simp add: update_pair_unfold Let_def)

lemma foldl_update_pair_count:
  "snd (foldl (update_pair cfg now org acc) st ps) = snd st + 2 * int (length ps)"
  by (induction ps arbitrary: st) (simp_all add: update_pair_count)

lemma process_event_raises:
  "event_tags event = None \<Longrightarrow> process_event cfg now org st event = Inl TypeError"
  by (simp add: process_event_def)

lemma process_event_count:
  assumes "event_tags event \<noteq> None"
  shows "\<exists>st'. process_event cfg now org st event = Inr st'
               \<and> snd st' = snd st + event_count event"
proof -
  from assms obtain tgs where t: "event_tags event = Some tgs" by blast
  let ?st' = "if length tgs < 2 then st
              else foldl (update_pair cfg now org (event_accepted event)) st (build_tag_pairs tgs)"
  have "process_event cfg now org st event = Inr ?st'"
    using t by (simp add: process_event_def)
  moreover have "snd ?st' = snd st + event_count event"
    using t by (simp add: event_count_def foldl_update_pair_count build_tag_pairs_short)
  ultimately show ?thesis by blast
qed

lemma process_events_count:
  "None \<notin> set (map event_tags evs) \<Longrightarrow>
   snd (process_events cfg now org st evs) = Inr (snd st + sum_list (map event_count evs))"
proof (induction evs arbitrary: st)
  case Nil
  then show ?case by simp
next
  case (Cons e evs)
  then have "event_tags e \<noteq> None" by auto
  from process_event_count [OF this, of cfg now org st]
  obtain st' where s: "process_event cfg now org st e = Inr st'"
    and c: "snd st' = snd st + event_count e" by blast
  have "None \<notin> set (map event_tags evs)" using Cons.prems by auto
  from Cons.IH [OF this, of st'] show ?case using s c by simp
qed

lemma process_events_raises:
  "None \<in> set (map event_tags evs) \<Longrightarrow> \<exists>err. snd (process_events cfg now org st evs) = Inl err"
proof (induction evs arbitrary: st)
  case Nil
  then show ?case by simp
next
  case (Cons e evs)
  show ?case
  proof (cases "event_tags e")
    case None
    then show ?thesis by (simp add: process_event_raises)
  next
    case (Some tgs)
    then have "event_tags e \<noteq> None" by simp
    from process_event_count [OF this, of cfg now org st]
    obtain st' where s: "process_event cfg now org st e = Inr st'" by blast
    have "None \<in> set (map event_tags evs)" using Cons.prems Some by auto
    from Cons.IH [OF this, of st'] show ?thesis using s by simp
  qed
qed

lemma process_org_count:
  "snd (process_org cfg now pack_events hours st org)
     = snd st + org_count cfg now pack_events hours org"
proof (cases st)
  case (Pair coll tot)
  show ?thesis
  proof (cases "get_recent_pack_events cfg now pack_events org hours")
    case (Inl err)
    then show ?thesis using Pair by (simp add: process_org_def org_count_def)
  next
    case (Inr evs)
    show ?thesis
    proof (cases "None \<in> set (map event_tags evs)")
      case True
      then have ne: "evs \<noteq> []" by auto
      from process_events_raises [OF True, of cfg now org "(coll, 0)"]
      obtain err where "snd (process_events cfg now org (coll, 0) evs) = Inl err" by blast
      then show ?thesis using Pair Inr True ne
        by (cases "process_events cfg now org (coll, 0) evs")
          (simp add: process_org_def org_count_def)
    next
      case False
      from process_events_count [OF False, of cfg now org "(coll, 0)"]
      have "snd (process_events cfg now org (coll, 0) evs) = Inr (sum_list (map event_count evs))"
        by simp
      then show ?thesis using Pair Inr False
        by (cases "process_events cfg now org (coll, 0) evs")
          (auto simp: process_org_def org_count_def)
    qed
  qed
qed

lemma foldl_process_org_count:
  "snd (foldl (process_org cfg now pack_events hours) st orgs)
     = snd st + sum_list (map (org_count cfg now pack_events hours) orgs)"
  by (induction orgs arbitrary: st) (simp_all add: process_org_count)

lemma run_updated:
  "updated (snd (run cfg now finished pack_events coll org_id hours))
     = sum_list (map (org_count cfg now pack_events hours) (select_orgs pack_events org_id))"
  by (simp add: run_def Let_def case_prod_beta foldl_process_org_count)

lemma run_pruned: "pruned (snd (run cfg now finished pack_events coll org_id hours)) = 0"
  by (simp add: run_def Let_def case_prod_beta)

section \<open>Properties of a pass: the documents\<close>














lemma get_tag_edges_upsert_other:
  "tg' \<noteq> tg \<Longrightarrow>
   get_tag_edges (fst (upsert_edges cfg now coll org tg edges)) org tg' = get_tag_edges coll org tg'"
  by (simp add: get_tag_edges_def upsert_edges_def Let_def)

lemma update_pair_stored:
  assumes ab: "a \<noteq> b"
  shows "get_tag_edges (fst (update_pair cfg now org acc (coll, n) (a, b))) org a
           = map (\<lambda>(to_tag, weight).
                \<lparr>e_to = to_tag, e_w = weight, e_facetSrc = [], e_facetDst = [], e_ts = py_int now\<rparr>)
              (slice_upto (max_edges_per_tag cfg) (sort_key (\<lambda>x. - snd x)
                 (dict_set (get_current_edges coll org a) b
                    (update_edge_weight cfg (dict_get (get_current_edges coll org a) b 0) acc))))"
    and "get_tag_edges (fst (update_pair cfg now org acc (coll, n) (a, b))) org b
           = map (\<lambda>(to_tag, weight).
                \<lparr>e_to = to_tag, e_w = weight, e_facetSrc = [], e_facetDst = [], e_ts = py_int now\<rparr>)
              (slice_upto (max_edges_per_tag cfg) (sort_key (\<lambda>x. - snd x)
                 (dict_set (get_current_edges coll org b) a
                    (update_edge_weight cfg (dict_get (get_current_edges coll org b) a 0) acc))))"
proof -
  let ?e1 = "get_current_edges coll org a"
  let ?d1 = "dict_set ?e1 b (update_edge_weight cfg (dict_get ?e1 b 0) acc)"
  let ?c1 = "fst (upsert_edges cfg now coll org a ?d1)"
  let ?e2 = "get_current_edges coll org b"
  let ?d2 = "dict_set ?e2 a (update_edge_weight cfg (dict_get ?e2 a 0) acc)"
  let ?c2 = "fst (upsert_edges cfg now ?c1 org b ?d2)"
  have e2: "get_current_edges ?c1 org b = ?e2"
    using ab by (simp add: get_current_edges_upsert_other)
  have res: "fst (update_pair cfg now org acc (coll, n) (a, b)) = ?c2"
    by (simp add: update_pair_unfold Let_def e2)
  have "get_tag_edges ?c2 org a = get_tag_edges ?c1 org a"
    using ab by (simp add: get_tag_edges_upsert_other)
  then show "get_tag_edges (fst (update_pair cfg now org acc (coll, n) (a, b))) org a
           = map (\<lambda>(to_tag, weight).
                \<lparr>e_to = to_tag, e_w = weight, e_facetSrc = [], e_facetDst = [], e_ts = py_int now\<rparr>)
              (slice_upto (max_edges_per_tag cfg) (sort_key (\<lambda>x. - snd x) ?d1))"
    by (simp add: res upsert_edges_stored)
  show "get_tag_edges (fst (update_pair cfg now org acc (coll, n) (a, b))) org b
           = map (\<lambda>(to_tag, weight).
                \<lparr>e_to = to_tag, e_w = weight, e_facetSrc = [], e_facetDst = [], e_ts = py_int now\<rparr>)
              (slice_upto (max_edges_per_tag cfg) (sort_key (\<lambda>x. - snd x) ?d2))"
    by (simp add: res upsert_edges_stored)
qed

lemma run_one_org:
  assumes "org \<noteq> []"
  shows "run cfg now finished pack_events coll (Some org) hours
         = (fst (process_org cfg now pack_events hours (coll, 0) org),
            \<lparr>updated = snd (process_org cfg now pack_events hours (coll, 0) org), pruned = 0,
             duration_seconds = finished - now\<rparr>)"
  using assms by (simp add: run_def select_orgs_def Let_def case_prod_beta)

lemma process_org_events:
  assumes "get_recent_pack_events cfg now pack_events org hours = Inr evs" and "evs \<noteq> []"
  shows "fst (process_org cfg now pack_events hours (coll, n) org)
           = fst (process_events cfg now org (coll, 0) evs)"
  using assms
  by (cases "process_events cfg now org (coll, 0) evs")
    (auto simp: process_org_def split: sum.splits)

lemma process_events_pair:
  assumes "event_tags e = Some [a, b]"
  shows "process_events cfg now org st (e # evs)
           = process_events cfg now org (update_pair cfg now org (event_accepted e) st (a, b)) evs"
  using assms by (simp add: process_event_def build_tag_pairs_Cons build_tag_pairs_Nil)


section \<open>The examples, evaluated\<close>

lemma cutoff_example: "window_cutoff example_now 24 = Inr 1699913600"
  by (simp add: window_cutoff_def example_now_def datetime_min_def datetime_end_def py_int_def)

lemma recent_accepted:
  "get_recent_pack_events example_config example_now [accepted_event] ''acme'' None
     = Inr [accepted_event]"
  by (simp add: get_recent_pack_events_def cutoff_example example_config_def accepted_event_def)

lemma tags_accepted: "event_tags accepted_event = Some [''python'', ''fastapi'']"
  and acc_accepted: "event_accepted accepted_event = True"
  by (simp_all add: event_tags_def event_accepted_def accepted_event_def)

lemma pairs_two: "build_tag_pairs [a, b] = [(a, b)]"
  by (simp add: build_tag_pairs_Cons build_tag_pairs_Nil)

lemma edges_four:
  "get_current_edges four_neighbours ''acme'' ''python''
     = [(''fastapi'', 8 / 10), (''machine_learning'', 6 / 10), (''data_science'', 4 / 10),
        (''web_development'', 2 / 10)]"
  by (simp add: get_current_edges_def four_neighbours_def seeded_edge_def)

lemma edges_four_other: "get_current_edges four_neighbours ''acme'' ''fastapi'' = []"
  by (simp add: get_current_edges_def four_neighbours_def)

lemma py_int_example: "py_int example_now = 1700000000"
  by (simp add: py_int_def example_now_def)

lemma pruning_pass_coll:
  "fst (run pruning_config example_now (example_now + 1) [accepted_event]
        four_neighbours (Some ''acme'') None)
   = fst (update_pair pruning_config example_now ''acme'' True (four_neighbours, 0)
        (''python'', ''fastapi''))"
proof -
  have r: "get_recent_pack_events pruning_config example_now [accepted_event] ''acme'' None
     = Inr [accepted_event]"
    by (simp add: get_recent_pack_events_def cutoff_example pruning_config_def example_config_def
        accepted_event_def)
  show ?thesis
    by (simp add: run_one_org process_org_events [OF r]
        process_events_pair [OF tags_accepted] acc_accepted del: process_events.simps(2))
qed

lemma pruning_pass:
  "map e_to
     (get_tag_edges (fst (run pruning_config example_now (example_now + 1) [accepted_event]
        four_neighbours (Some ''acme'') None)) ''acme'' ''python'')
   = [''fastapi'', ''machine_learning'', ''data_science'']"
proof -
  have ne: "''python'' \<noteq> ''fastapi''" by simp
  have m: "max_edges_per_tag pruning_config = 3"
    by (simp add: pruning_config_def)
  show ?thesis
    unfolding pruning_pass_coll update_pair_stored(1) [OF ne] edges_four m
    by (simp add: dict_get_def update_edge_weight_def clip_weight_def pruning_config_def
        example_config_def Let_def slice_upto_def)
qed


lemma tags_repeated: "event_tags repeated_tag_event = Some [''python'', ''python'']"
  and acc_repeated: "event_accepted repeated_tag_event = True"
  by (simp_all add: event_tags_def event_accepted_def repeated_tag_event_def)

lemma edges_empty: "get_current_edges Map.empty org tg = []"
  by (simp add: get_current_edges_def)


lemma recent_repeated:
  "get_recent_pack_events example_config example_now [repeated_tag_event]
     ''acme'' None = Inr [repeated_tag_event]"
  by (simp add: get_recent_pack_events_def cutoff_example example_config_def
      repeated_tag_event_def)


lemma repeated_first_write:
  "fst (upsert_edges example_config example_now Map.empty ''acme'' ''python''
          (dict_set [] ''python'' (update_edge_weight example_config (dict_get [] ''python'' 0) True)))
   = [(''acme'', ''python'') \<mapsto>
        [\<lparr>e_to = ''python'', e_w = 5 / 1000, e_facetSrc = [], e_facetDst = [],
          e_ts = 1700000000\<rparr>]]"
  by (simp add: upsert_edges_def dict_get_def update_edge_weight_def clip_weight_def
      example_config_def Let_def slice_upto_def py_int_example)

lemma repeated_second_read:
  "get_current_edges
     [(''acme'', ''python'') \<mapsto>
        [\<lparr>e_to = ''python'', e_w = 5 / 1000, e_facetSrc = [], e_facetDst = [],
          e_ts = 1700000000\<rparr>]] ''acme'' ''python''
   = [(''python'', 5 / 1000)]"
  by (simp add: get_current_edges_def)

lemma repeated_pair:
  "get_tag_edges (fst (update_pair example_config example_now ''acme'' True (Map.empty, 0)
      (''python'', ''python''))) ''acme'' ''python''
   = [\<lparr>e_to = ''python'', e_w = 1 / 100, e_facetSrc = [], e_facetDst = [],
          e_ts = 1700000000\<rparr>]"
  unfolding update_pair_unfold Let_def edges_empty repeated_first_write repeated_second_read
  by (simp add: upsert_edges_stored dict_get_def update_edge_weight_def clip_weight_def
      example_config_def Let_def slice_upto_def py_int_example)


section \<open>Events that a pass cannot tell apart\<close>








section \<open>The claims about the edge-learning pass\<close>

text \<open>
  C2, at an event that names a tag twice. The docstring of \<^verbatim>\<open>_build_tag_pairs\<close>
  promises unique unordered pairs, and the claim pairs of two different tags; for the
  tags \<open>python, python\<close> the code builds the pair of \<open>python\<close> with itself, counts two
  updates for it and stores an edge from \<open>python\<close> to itself that received the
  reward twice.
\<close>

theorem repeated_tag_self_pair:
  "event_tags repeated_tag_event = Some [''python'', ''python'']
   \<and> build_tag_pairs [''python'', ''python''] = [(''python'', ''python'')]
   \<and> updated (snd (run example_config example_now (example_now + 1)
      [repeated_tag_event] Map.empty (Some ''acme'') None)) = 2
   \<and> map e_to
       (get_tag_edges (fst (run example_config example_now (example_now + 1)
          [repeated_tag_event] Map.empty (Some ''acme'') None)) ''acme'' ''python'')
     = [''python'']
   \<and> map e_w
       (get_tag_edges (fst (run example_config example_now (example_now + 1)
          [repeated_tag_event] Map.empty (Some ''acme'') None)) ''acme'' ''python'')
     = [update_edge_weight example_config (update_edge_weight example_config 0 True) True]"
proof -
  have c: "updated (snd (run example_config example_now (example_now + 1)
      [repeated_tag_event] Map.empty (Some ''acme'') None)) = 2"
    by (simp add: run_updated select_orgs_def org_count_def recent_repeated tags_repeated
        event_count_def pairs_two)
  have "fst (run example_config example_now (example_now + 1)
      [repeated_tag_event] Map.empty (Some ''acme'') None)
    = fst (update_pair example_config example_now ''acme'' True (Map.empty, 0)
        (''python'', ''python''))"
    by (simp add: run_one_org process_org_events [OF recent_repeated]
      process_events_pair [OF tags_repeated] acc_repeated del: process_events.simps(2))
  then have s: "get_tag_edges (fst (run example_config example_now (example_now + 1)
          [repeated_tag_event] Map.empty (Some ''acme'') None)) ''acme'' ''python''
     = [\<lparr>e_to = ''python'', e_w = 1 / 100, e_facetSrc = [], e_facetDst = [],
          e_ts = 1700000000\<rparr>]"
    by (simp add: repeated_pair)
  have u: "update_edge_weight example_config (update_edge_weight example_config 0 True) True
           = 1 / 100"
    by (simp add: update_edge_weight_def clip_weight_def example_config_def Let_def)
  show ?thesis
    unfolding s u using c tags_repeated pairs_two [of "''python''" "''python''"] by simp
qed







text \<open>
  C9. The summary of every pass has \<open>pruned = 0\<close>, also of a pass in which the bound
  cuts a document from four edges to three.
\<close>

theorem run_pruned_zero:
  "pruned (snd (run cfg now finished pack_events coll org_id hours)) = 0
   \<and> length (get_tag_edges four_neighbours ''acme'' ''python'') = 4
   \<and> length (get_tag_edges (fst (run pruning_config example_now (example_now + 1)
        [accepted_event] four_neighbours (Some ''acme'') None)) ''acme'' ''python'') = 3
   \<and> pruned (snd (run pruning_config example_now (example_now + 1)
        [accepted_event] four_neighbours (Some ''acme'') None)) = 0"
proof -
  have "length (map e_to
          (get_tag_edges (fst (run pruning_config example_now (example_now + 1)
             [accepted_event] four_neighbours (Some ''acme'') None)) ''acme'' ''python'')) = 3"
    unfolding pruning_pass by simp
  then show ?thesis
    by (simp add: run_pruned get_tag_edges_def four_neighbours_def)
qed


section \<open>Properties of the tiering\<close>

text \<open>
  C5. The tier depends on the hotness score alone: a score of at least 5 is tier 1, a
  score of at least 1 and below 5 is tier 2, a score below 1 is tier 3. The lower bound
  of each band belongs to it: 5.0 is tier 1, 4.999 tier 2, 1.0 tier 2 and 0.999 tier 3.
\<close>

theorem determine_tier_bands:
  "(5 \<le> h \<longrightarrow> determine_tier h = 1)
   \<and> (1 \<le> h \<and> h < 5 \<longrightarrow> determine_tier h = 2)
   \<and> (h < 1 \<longrightarrow> determine_tier h = 3)
   \<and> determine_tier 5 = 1
   \<and> determine_tier (4999 / 1000) = 2
   \<and> determine_tier 1 = 2
   \<and> determine_tier (999 / 1000) = 3"
  by (simp add: determine_tier_def)

theorem determine_tier_bands_witness:
  "((5::real) \<le> 7 \<and> determine_tier 7 = 1)
   \<and> (((1::real) \<le> 3 \<and> (3::real) < 5) \<and> determine_tier 3 = 2)
   \<and> ((1 / 2 :: real) < 1 \<and> determine_tier (1 / 2) = 3)"
  using determine_tier_bands [of 7] determine_tier_bands [of 3]
    determine_tier_bands [of "1 / 2"]
  by simp

section \<open>Properties of the sweep over the tag records\<close>

text \<open>The failures of the conversion that the function catches give the default.\<close>

lemma safe_get_int_default:
  "safe_get_int int_of_str PNone dflt = Inr dflt"
  "safe_get_int int_of_str (POther b) dflt = Inr dflt"
  "safe_get_int int_of_str (PDatetime t) dflt = Inr dflt"
  "safe_get_int int_of_str (PFloat NaN) dflt = Inr dflt"
  "int_of_str s = None \<Longrightarrow> safe_get_int int_of_str (PStr s) dflt = Inr dflt"
  by (simp_all add: safe_get_int_def)

lemma safe_get_int_infinite:
  "safe_get_int int_of_str (PFloat PosInf) dflt = Inl OverflowError"
  "safe_get_int int_of_str (PFloat NegInf) dflt = Inl OverflowError"
  by (simp_all add: safe_get_int_def)

lemma safe_parse_datetime_missing: "safe_parse_datetime fromisoformat PNone = None"
  by (simp add: safe_parse_datetime_def)

lemma safe_parse_datetime_unparseable:
  "fromisoformat (filter (\<lambda>c. c \<noteq> CHR ''Z'') s) = None \<Longrightarrow>
   safe_parse_datetime fromisoformat (PStr s) = None"
  by (simp add: safe_parse_datetime_def)

text \<open>
  A record whose \<^verbatim>\<open>createdAt\<close> or \<^verbatim>\<open>lastUsedAt\<close> does not parse leaves the state
  as it was, whatever else it holds, and the loop goes on with the records after it.
\<close>

lemma process_record_skips:
  assumes "get_dict (td_metrics tag_data) = Some metrics"
    and "safe_parse_datetime fromisoformat (py_get metrics ''createdAt'') = None
         \<or> safe_parse_datetime fromisoformat (py_get metrics ''lastUsedAt'') = None"
  shows "process_record int_of_str fromisoformat update_tag_tier now st tag_data = st"
  using assms
  by (auto simp: process_record_def tag_record_body_def Let_def split: sum.splits option.splits)

lemma rebalance_page_skips:
  assumes "get_dict (td_metrics tag_data) = Some metrics"
    and "safe_parse_datetime fromisoformat (py_get metrics ''createdAt'') = None
         \<or> safe_parse_datetime fromisoformat (py_get metrics ''lastUsedAt'') = None"
  shows "rebalance_page int_of_str fromisoformat update_tag_tier now st (before @ tag_data # rest)
         = rebalance_page int_of_str fromisoformat update_tag_tier now st (before @ rest)"
  using process_record_skips [OF assms] by (simp add: rebalance_page_def)

lemma process_record_raises:
  "tag_record_body int_of_str fromisoformat update_tag_tier now st tag_data = Inl err \<Longrightarrow>
   process_record int_of_str fromisoformat update_tag_tier now st tag_data = st"
  by (simp add: process_record_def)




end
